theory Spec2Isabelle
  imports Main "HOL-Library.Word"
begin

section \<open>Go values used by the host metrics receiver\<close>

text \<open>
  A Go call either returns its results or panics. Interface and pointer values may be
  nil: they are modelled as \<open>option\<close>, with \<open>None\<close> for nil. A Go result pair
  \<open>(value, error)\<close> stays a pair whose error component is \<open>None\<close> for the nil error.
\<close>

datatype 'a outcome = Returns 'a | Panics

text \<open>
  Errors: \<open>Err\<close> is an error handed back by a collaborator (a scraper factory, the
  controller library). The other two are the errors \<open>createAddScraperOptions\<close> builds with
  \<open>fmt.Errorf\<close>: the first wraps the underlying error (\<open>%w\<close>), both carry the scraper key
  that the message quotes.
\<close>

datatype error =
    Err string
  | FailedToCreateScraper string error
  | FactoryNotFound string

subsection \<open>Durations\<close>

text \<open>Go's \<open>time.Duration\<close> is a signed 64-bit count of nanoseconds.\<close>

type_synonym Duration = "64 word"

definition Nanosecond :: Duration where
  "Nanosecond = 1"

definition Microsecond :: Duration where
  "Microsecond = 1000 * Nanosecond"

definition Millisecond :: Duration where
  "Millisecond = 1000 * Microsecond"

definition Second :: Duration where
  "Second = 1000 * Millisecond"

definition Minute :: Duration where
  "Minute = 60 * Second"

section \<open>factory.go\<close>

definition defaultMetadataCollectionInterval :: Duration where
  "defaultMetadataCollectionInterval = 5 * Minute"

subsection \<open>Scraper factories and the registry\<close>

text \<open>
  \<open>internal.ScraperFactory\<close> is an interface with the two methods that
  \<open>loadscraper.Factory\<close> implements. The context \<open>'x\<close>, the receiver settings \<open>'e\<close>, the
  per-scraper configuration \<open>'c\<close> and the scraper \<open>'s\<close> are opaque to factory.go, which
  only passes them on. A factory may return any pair, and may panic (the load factory
  does when its configuration has another dynamic type).
\<close>

record ('x, 'e, 'c, 's) ScraperFactory =
  CreateDefaultConfig :: 'c
  CreateMetricsScraper :: "'x \<Rightarrow> 'e \<Rightarrow> 'c \<Rightarrow> ('s option \<times> error option) outcome"

text \<open>A Go map from scraper key to factory interface value; a stored value may be nil.\<close>

type_synonym ('x, 'e, 'c, 's) factories =
  "string \<rightharpoonup> ('x, 'e, 'c, 's) ScraperFactory option"

text \<open>The ten scraper packages that factory.go imports, in the order of the map literal.\<close>

datatype scraper_package =
    cpuscraper | diskscraper | loadscraper | filesystemscraper | memoryscraper
  | networkscraper | pagingscraper | processesscraper | processscraper | systemscraper

definition loadscraper_TypeStr :: string where
  "loadscraper_TypeStr = ''load''"

text \<open>
  The map literal of \<open>scraperFactories\<close>. Of the ten packages only loadscraper is at hand,
  so the \<open>TypeStr\<close> constant of the others and the ten \<open>&Factory{}\<close> values are parameters.
  A composite literal with two equal constant keys does not compile; here a later entry
  would overwrite an earlier one.
\<close>

definition TypeStr :: "(scraper_package \<Rightarrow> string) \<Rightarrow> scraper_package \<Rightarrow> string" where
  "TypeStr others p = (if p = loadscraper then loadscraper_TypeStr else others p)"

definition scraperFactories_literal ::
  "(scraper_package \<Rightarrow> string) \<Rightarrow> (scraper_package \<Rightarrow> ('x, 'e, 'c, 's) ScraperFactory)
    \<Rightarrow> ('x, 'e, 'c, 's) factories" where
  "scraperFactories_literal others Factory =
     Map.empty
       (TypeStr others cpuscraper \<mapsto> Some (Factory cpuscraper),
        TypeStr others diskscraper \<mapsto> Some (Factory diskscraper),
        TypeStr others loadscraper \<mapsto> Some (Factory loadscraper),
        TypeStr others filesystemscraper \<mapsto> Some (Factory filesystemscraper),
        TypeStr others memoryscraper \<mapsto> Some (Factory memoryscraper),
        TypeStr others networkscraper \<mapsto> Some (Factory networkscraper),
        TypeStr others pagingscraper \<mapsto> Some (Factory pagingscraper),
        TypeStr others processesscraper \<mapsto> Some (Factory processesscraper),
        TypeStr others processscraper \<mapsto> Some (Factory processscraper),
        TypeStr others systemscraper \<mapsto> Some (Factory systemscraper))"

subsection \<open>Package-level state\<close>

text \<open>
  The state that the functions of factory.go read or write: the package variable
  \<open>scraperFactories\<close> and the boot-time-cache switches of the two gopsutil packages
  (\<open>host.EnableBootTimeCache\<close> and \<open>process.EnableBootTimeCache\<close> each store their argument
  in a package variable). \<open>libraryCalls\<close> records, in order, the calls that
  \<open>createMetricsReceiver\<close> makes into gopsutil and into scraperhelper.
\<close>

datatype library_call =
    HostEnableBootTimeCache bool
  | ProcessEnableBootTimeCache bool
  | NewScraperControllerReceiverCall

record ('x, 'e, 'c, 's) globals =
  scraperFactories :: "('x, 'e, 'c, 's) factories"
  host_enableBootTimeCache :: bool
  process_enableBootTimeCache :: bool
  libraryCalls :: "library_call list"

definition host_EnableBootTimeCache ::
  "bool \<Rightarrow> ('x, 'e, 'c, 's) globals \<Rightarrow> ('x, 'e, 'c, 's) globals" where
  "host_EnableBootTimeCache enable g =
     g\<lparr>host_enableBootTimeCache := enable,
       libraryCalls := libraryCalls g @ [HostEnableBootTimeCache enable]\<rparr>"

definition process_EnableBootTimeCache ::
  "bool \<Rightarrow> ('x, 'e, 'c, 's) globals \<Rightarrow> ('x, 'e, 'c, 's) globals" where
  "process_EnableBootTimeCache enable g =
     g\<lparr>process_enableBootTimeCache := enable,
       libraryCalls := libraryCalls g @ [ProcessEnableBootTimeCache enable]\<rparr>"

definition getScraperFactory ::
  "('x, 'e, 'c, 's) globals \<Rightarrow> string \<Rightarrow> ('x, 'e, 'c, 's) ScraperFactory option \<times> bool" where
  "getScraperFactory g key =
     (case scraperFactories g key of
        Some factory \<Rightarrow> (factory, True)
      | None \<Rightarrow> (None, False))"

subsection \<open>Configuration\<close>

text \<open>
  The fields of the receiver's \<open>Config\<close> that factory.go uses. \<open>Scrapers\<close> is a Go map; its
  entries are listed in the order in which the \<open>range\<close> statement of
  \<open>createAddScraperOptions\<close> visits them, an order Go leaves unspecified. The controller
  configuration \<open>'cc\<close> comes from the scraperhelper library.
\<close>

record ('cc, 'c) Config =
  ControllerConfig :: 'cc
  MetadataCollectionInterval :: Duration
  Scrapers :: "(string \<times> 'c) list"

text \<open>
  A \<open>component.Config\<close> is an interface value of any dynamic type. \<open>ConfigPtr p\<close> is one
  whose dynamic type is \<open>*Config\<close> (\<open>p = None\<close> for the nil pointer); \<open>OtherConfig\<close>
  stands for every other value, the nil interface included.
\<close>

datatype ('cc, 'c) component_Config =
    ConfigPtr "('cc, 'c) Config option"
  | OtherConfig

definition createDefaultConfig :: "'cc \<Rightarrow> ('cc, 'c) component_Config" where
  "createDefaultConfig NewDefaultControllerConfig =
     ConfigPtr (Some \<lparr>ControllerConfig = NewDefaultControllerConfig,
                      MetadataCollectionInterval = defaultMetadataCollectionInterval,
                      Scrapers = []\<rparr>)"

subsection \<open>Building the scrapers\<close>

text \<open>
  \<open>metadata.Type\<close> is the receiver's component type, a generated constant.
  \<open>scraperhelper.AddScraper\<close> wraps a component type and a scraper into a controller
  option; the scraper it is given may be the nil interface.
\<close>

datatype component_Type = metadata_Type

datatype 's ScraperControllerOption = AddScraper component_Type "'s option"

text \<open>Go's \<open>factories[key]\<close>: the stored value, or the zero value nil for an absent key.\<close>

definition index_factories ::
  "('x, 'e, 'c, 's) factories \<Rightarrow> string \<Rightarrow> ('x, 'e, 'c, 's) ScraperFactory option" where
  "index_factories factories key =
     (case factories key of None \<Rightarrow> None | Some factory \<Rightarrow> factory)"

text \<open>The named results \<open>(s, ok, err)\<close> of \<open>createHostMetricsScraper\<close>.\<close>

definition createHostMetricsScraper ::
  "'x \<Rightarrow> 'e \<Rightarrow> string \<Rightarrow> 'c \<Rightarrow> ('x, 'e, 'c, 's) factories
    \<Rightarrow> ('s option \<times> bool \<times> error option) outcome" where
  "createHostMetricsScraper ctx rset key config factories =
     (case index_factories factories key of
        None \<Rightarrow> Returns (None, False, None)
      | Some factory \<Rightarrow>
          (case CreateMetricsScraper factory ctx rset config of
             Panics \<Rightarrow> Panics
           | Returns (s, err) \<Rightarrow> Returns (s, True, err)))"

text \<open>
  The \<open>range\<close> loop of \<open>createAddScraperOptions\<close> over the entries still to visit, with
  the options appended so far. The function returns either \<open>(nil, err)\<close>, here \<open>Inl err\<close>,
  or \<open>(scraperControllerOptions, nil)\<close>, here \<open>Inr scraperControllerOptions\<close>.
\<close>

fun range_Scrapers ::
  "'x \<Rightarrow> 'e \<Rightarrow> (string \<times> 'c) list \<Rightarrow> ('x, 'e, 'c, 's) factories
    \<Rightarrow> 's ScraperControllerOption list
    \<Rightarrow> (error + 's ScraperControllerOption list) outcome" where
  "range_Scrapers ctx rset [] factories scraperControllerOptions =
     Returns (Inr scraperControllerOptions)"
| "range_Scrapers ctx rset ((key, config) # rest) factories scraperControllerOptions =
     (case createHostMetricsScraper ctx rset key config factories of
        Panics \<Rightarrow> Panics
      | Returns (hostMetricsScraper, ok, err) \<Rightarrow>
          (case err of
             Some e \<Rightarrow> Returns (Inl (FailedToCreateScraper key e))
           | None \<Rightarrow>
               if ok
               then range_Scrapers ctx rset rest factories
                      (scraperControllerOptions @ [AddScraper metadata_Type hostMetricsScraper])
               else Returns (Inl (FactoryNotFound key))))"

text \<open>\<open>config\<close> is a \<open>*Config\<close>: reading \<open>config.Scrapers\<close> through a nil pointer panics.\<close>

definition createAddScraperOptions ::
  "'x \<Rightarrow> 'e \<Rightarrow> ('cc, 'c) Config option \<Rightarrow> ('x, 'e, 'c, 's) factories
    \<Rightarrow> (error + 's ScraperControllerOption list) outcome" where
  "createAddScraperOptions ctx rset config factories =
     (case config of
        None \<Rightarrow> Panics
      | Some c \<Rightarrow> range_Scrapers ctx rset (Scrapers c) factories [])"

subsection \<open>The two receivers\<close>

text \<open>
  \<open>scraperhelper.NewScraperControllerReceiver\<close> is a library function and a parameter
  here; it returns a receiver and an error. The type assertion \<open>cfg.(*Config)\<close> panics
  on a configuration of another dynamic type. The result is paired with the package-level
  state after the call.
\<close>

definition createMetricsReceiver ::
  "('cc \<Rightarrow> 'e \<Rightarrow> 'm \<Rightarrow> 's ScraperControllerOption list \<Rightarrow> 'r option \<times> error option)
    \<Rightarrow> 'x \<Rightarrow> 'e \<Rightarrow> ('cc, 'c) component_Config \<Rightarrow> 'm \<Rightarrow> ('x, 'e, 'c, 's) globals
    \<Rightarrow> ('r option \<times> error option) outcome \<times> ('x, 'e, 'c, 's) globals" where
  "createMetricsReceiver NewScraperControllerReceiver ctx rset config consumer g =
     (case config of
        OtherConfig \<Rightarrow> (Panics, g)
      | ConfigPtr oCfg \<Rightarrow>
          (case createAddScraperOptions ctx rset oCfg (scraperFactories g) of
             Panics \<Rightarrow> (Panics, g)
           | Returns (Inl err) \<Rightarrow> (Returns (None, Some err), g)
           | Returns (Inr addScraperOptions) \<Rightarrow>
               (let g1 = host_EnableBootTimeCache True g;
                    g2 = process_EnableBootTimeCache True g1
                 in case oCfg of
                      None \<Rightarrow> (Panics, g2)
                    | Some c \<Rightarrow>
                        (Returns (NewScraperControllerReceiver (ControllerConfig c) rset
                                    consumer addScraperOptions),
                         g2\<lparr>libraryCalls :=
                               libraryCalls g2 @ [NewScraperControllerReceiverCall]\<rparr>))))"

text \<open>The three fields of \<open>hostEntitiesReceiver\<close> that \<open>createLogsReceiver\<close> sets.\<close>

record ('cc, 'c, 'l, 'e) hostEntitiesReceiver =
  cfg :: "('cc, 'c) Config option"
  nextLogs :: 'l
  settings :: 'e

definition createLogsReceiver ::
  "'x \<Rightarrow> 'e \<Rightarrow> ('cc, 'c) component_Config \<Rightarrow> 'l
    \<Rightarrow> (('cc, 'c, 'l, 'e) hostEntitiesReceiver option \<times> error option) outcome" where
  "createLogsReceiver ctx rset config consumer =
     (case config of
        OtherConfig \<Rightarrow> Panics
      | ConfigPtr p \<Rightarrow>
          Returns (Some \<lparr>cfg = p, nextLogs = consumer, settings = rset\<rparr>, None))"

subsection \<open>Sequences of calls into the package\<close>

text \<open>
  A client of the package calls its functions in any order. \<open>after_calls\<close> is the
  package-level state after a sequence of such calls; only \<open>createMetricsReceiver\<close>
  writes to it.
\<close>

datatype ('x, 'e, 'cc, 'c, 'm, 'l) package_call =
    Call_getScraperFactory string
  | Call_createDefaultConfig 'cc
  | Call_createMetricsReceiver 'x 'e "('cc, 'c) component_Config" 'm
  | Call_createLogsReceiver 'x 'e "('cc, 'c) component_Config" 'l

fun after_call ::
  "('cc \<Rightarrow> 'e \<Rightarrow> 'm \<Rightarrow> 's ScraperControllerOption list \<Rightarrow> 'r option \<times> error option)
    \<Rightarrow> ('x, 'e, 'cc, 'c, 'm, 'l) package_call \<Rightarrow> ('x, 'e, 'c, 's) globals
    \<Rightarrow> ('x, 'e, 'c, 's) globals" where
  "after_call N (Call_getScraperFactory key) g = g"
| "after_call N (Call_createDefaultConfig dflt) g = g"
| "after_call N (Call_createMetricsReceiver ctx rset config consumer) g =
     snd (createMetricsReceiver N ctx rset config consumer g)"
| "after_call N (Call_createLogsReceiver ctx rset config consumer) g = g"

fun after_calls ::
  "('cc \<Rightarrow> 'e \<Rightarrow> 'm \<Rightarrow> 's ScraperControllerOption list \<Rightarrow> 'r option \<times> error option)
    \<Rightarrow> ('x, 'e, 'cc, 'c, 'm, 'l) package_call list \<Rightarrow> ('x, 'e, 'c, 's) globals
    \<Rightarrow> ('x, 'e, 'c, 's) globals" where
  "after_calls N [] g = g"
| "after_calls N (call # calls) g = after_calls N calls (after_call N call g)"

subsection \<open>What a configured entry needs in order to be built\<close>

text \<open>
  An entry of \<open>Scrapers\<close> resolves when indexing the factories with its key gives a
  factory that is not nil. It is built when, in addition, that factory's
  \<open>CreateMetricsScraper\<close> returns a nil error; \<open>built_option\<close> is then the controller
  option made of the scraper it returned.
\<close>

definition resolves :: "('x, 'e, 'c, 's) factories \<Rightarrow> string \<times> 'c \<Rightarrow> bool" where
  "resolves factories entry =
     (case index_factories factories (fst entry) of None \<Rightarrow> False | Some factory \<Rightarrow> True)"

definition is_built :: "'x \<Rightarrow> 'e \<Rightarrow> ('x, 'e, 'c, 's) factories \<Rightarrow> string \<times> 'c \<Rightarrow> bool" where
  "is_built ctx rset factories entry =
     (case index_factories factories (fst entry) of
        None \<Rightarrow> False
      | Some factory \<Rightarrow>
          (case CreateMetricsScraper factory ctx rset (snd entry) of
             Panics \<Rightarrow> False
           | Returns (s, err) \<Rightarrow> err = None))"

definition built_option ::
  "'x \<Rightarrow> 'e \<Rightarrow> ('x, 'e, 'c, 's) factories \<Rightarrow> string \<times> 'c \<Rightarrow> 's ScraperControllerOption" where
  "built_option ctx rset factories entry =
     AddScraper metadata_Type
       (case index_factories factories (fst entry) of
          None \<Rightarrow> None
        | Some factory \<Rightarrow>
            (case CreateMetricsScraper factory ctx rset (snd entry) of
               Panics \<Rightarrow> None
             | Returns (s, err) \<Rightarrow> s))"

section \<open>The handle-count manager\<close>

text \<open>
  handles.go declares the interface \<open>Manager\<close> with \<open>Refresh() error\<close> and
  \<open>GetProcessHandleCount(pid int64) (uint32, error)\<close>; no implementation of it is at
  hand. A process id is a signed 64-bit integer and a count an unsigned 32-bit one.
\<close>

text \<open>
  Modelled from the spec: the HandleCountState of the missing implementation, a mapping
  from process id to the last-known count of open handles.
\<close>

type_synonym handle_table = "64 word \<rightharpoonup> 32 word"

text \<open>
  Modelled from the spec: the errors of the missing implementation, that of a failed
  refresh and the not-found error of a lookup.
\<close>

datatype handle_error = QueryFailed string | ProcessNotFound "64 word"

text \<open>
  Modelled from the spec: the manager's state \<open>handleCounts\<close>, beside what a query of
  the operating system's handle-count table would read now (or the error it would give).
\<close>

record handle_world =
  os_handleCounts :: "handle_error + handle_table"
  handleCounts :: handle_table

text \<open>
  Modelled from the spec: the implementation of \<open>Manager.Refresh\<close> is missing. The spec
  has it re-read the whole table of the operating system once; the state then holds
  the counts of that reading, without the processes no longer present. A failed query is
  returned as the error; the state is then left as it was.
\<close>

definition Refresh :: "handle_world \<Rightarrow> handle_error option \<times> handle_world" where
  "Refresh w =
     (case os_handleCounts w of
        Inl err \<Rightarrow> (Some err, w)
      | Inr table \<Rightarrow> (None, w\<lparr>handleCounts := table\<rparr>))"

text \<open>
  Modelled from the spec: the implementation of \<open>Manager.GetProcessHandleCount\<close> is
  missing. The spec has it return the most recently refreshed value for the process id,
  and a not-found error for a process that is not in it.
\<close>

definition GetProcessHandleCount :: "handle_world \<Rightarrow> 64 word \<Rightarrow> 32 word \<times> handle_error option" where
  "GetProcessHandleCount w pid =
     (case handleCounts w pid of
        None \<Rightarrow> (0, Some (ProcessNotFound pid))
      | Some handleCount \<Rightarrow> (handleCount, None))"

text \<open>
  Modelled from the spec: the process table of the operating system changes between two
  refreshes, one change after another; the manager's state is not touched.
\<close>

fun os_changes :: "(handle_error + handle_table) list \<Rightarrow> handle_world \<Rightarrow> handle_world" where
  "os_changes [] w = w"
| "os_changes (t # ts) w = os_changes ts (w\<lparr>os_handleCounts := t\<rparr>)"

section \<open>A round of the scraper controller\<close>

text \<open>
  The controller is built by \<open>scraperhelper.NewScraperControllerReceiver\<close>, which
  \<open>createMetricsReceiver\<close> calls; its code is not at hand.
\<close>

text \<open>
  Modelled from the spec: what one scrape of one scraper gives (section 4.2): data,
  best-effort data with a non-fatal error, or a fatal error that voids the scraper's
  contribution to the round.
\<close>

datatype 'd scrape_result =
    Data "'d list"
  | PartialData "'d list" error
  | Fatal error

text \<open>
  Modelled from the spec: an active scraper, with its key and its scrape operation on the
  host \<open>'w\<close>.
\<close>

record ('w, 'd) Scraper =
  scraperKey :: string
  scrape :: "'w \<Rightarrow> 'd scrape_result"

text \<open>
  Modelled from the spec: the CollectionBatch of section 3, the data points of one tick
  with its timestamp.
\<close>

record 'd CollectionBatch =
  timestamp :: nat
  dataPoints :: "'d list"

text \<open>
  Modelled from the spec: the PartialError of section 3, with the identity of the failed
  scrapers and whether the round's data is still forwarded.
\<close>

record PartialError =
  failedScrapers :: "string list"
  forwardPartialData :: bool

text \<open>
  Modelled from the spec: what a round hands on, the batch forwarded to the consumer (if
  any) and the error surfaced (if any).
\<close>

record 'd round_result =
  forwarded :: "'d CollectionBatch option"
  roundError :: "PartialError option"

text \<open>
  Modelled from the spec: the data a scrape contributes to the batch; a fatal failure
  contributes nothing.
\<close>

definition contribution :: "'d scrape_result \<Rightarrow> 'd list" where
  "contribution r = (case r of Data ds \<Rightarrow> ds | PartialData ds err \<Rightarrow> ds | Fatal err \<Rightarrow> [])"

text \<open>Modelled from the spec: whether a scrape failed fatally.\<close>

definition failed_fatally :: "'d scrape_result \<Rightarrow> bool" where
  "failed_fatally r = (case r of Fatal err \<Rightarrow> True | Data ds \<Rightarrow> False | PartialData ds err \<Rightarrow> False)"

text \<open>
  Modelled from the spec: the round of the scraper controller is missing (it is part of
  scraperhelper). After section 4.4: scrape is invoked on every active scraper, on the
  host \<open>w\<close> at the tick \<open>now\<close>; a scraper that fails fatally contributes nothing to the
  batch and does not stop the others; if at least one scraper succeeded, the merged batch
  is forwarded, with a PartialError naming the failed scrapers when there are any; if
  all failed, nothing is forwarded and the aggregate error is surfaced.
\<close>

definition controller_round :: "nat \<Rightarrow> 'w \<Rightarrow> ('w, 'd) Scraper list \<Rightarrow> 'd round_result" where
  "controller_round now w scrapers =
     (let results = map (\<lambda>s. (scraperKey s, scrape s w)) scrapers;
          failures = map fst (filter (\<lambda>kr. failed_fatally (snd kr)) results)
      in if list_ex (\<lambda>kr. \<not> failed_fatally (snd kr)) results
         then \<lparr>forwarded =
                 Some \<lparr>timestamp = now,
                       dataPoints = concat (map (\<lambda>kr. contribution (snd kr)) results)\<rparr>,
               roundError =
                 (if failures = [] then None
                  else Some \<lparr>failedScrapers = failures, forwardPartialData = True\<rparr>)\<rparr>
         else \<lparr>forwarded = None,
               roundError = Some \<lparr>failedScrapers = failures, forwardPartialData = False\<rparr>\<rparr>)"

section \<open>Starting the scrapers\<close>

text \<open>
  factory.go hands the scrapers it has built to \<open>NewScraperControllerReceiver\<close>, and the
  load factory passes its scraper's start operation on with \<open>scraper.WithStart\<close>; the
  controller that runs the start operations is not at hand.
\<close>

text \<open>
  Modelled from the spec: the scraper controller of section 4.4, which owns its
  configuration, the consumer and the scrapers constructed for it, in construction order.
\<close>

record ('cc, 'e, 'm, 's) controller =
  ctl_config :: 'cc
  ctl_settings :: 'e
  ctl_consumer :: 'm
  ctl_scrapers :: "'s option list"

text \<open>
  Modelled from the spec: the scraper that a controller option adds.
\<close>

definition added_scraper :: "'s ScraperControllerOption \<Rightarrow> 's option" where
  "added_scraper option = (case option of AddScraper t s \<Rightarrow> s)"

text \<open>
  Modelled from the spec: a construction of the controller that succeeds; the controller
  owns the scrapers of its options.
\<close>

definition new_controller ::
  "'cc \<Rightarrow> 'e \<Rightarrow> 'm \<Rightarrow> 's ScraperControllerOption list
    \<Rightarrow> ('cc, 'e, 'm, 's) controller option \<times> error option" where
  "new_controller controllerCfg rset consumer options =
     (Some \<lparr>ctl_config = controllerCfg, ctl_settings = rset,
            ctl_consumer = consumer, ctl_scrapers = map added_scraper options\<rparr>,
      None)"

text \<open>
  Modelled from the spec: one run of a scraper's start operation (section 4.2), with what
  it finds: whether the boot-time cache of gopsutil's host package and that of its process
  package are enabled at that moment.
\<close>

datatype 's scraper_start = ScraperStart "'s option" bool bool

text \<open>
  Modelled from the spec: starting the controller runs the start operation of every
  scraper it owns, in construction order, in the package-level state of that moment.
\<close>

definition controller_Start ::
  "('cc, 'e, 'm, 's) controller \<Rightarrow> ('x, 'e, 'c, 's) globals \<Rightarrow> 's scraper_start list" where
  "controller_Start ctl g =
     map (\<lambda>s. ScraperStart s (host_enableBootTimeCache g) (process_enableBootTimeCache g))
       (ctl_scrapers ctl)"

text \<open>
  Modelled from the spec: a metrics receiver is built by \<open>createMetricsReceiver\<close> and, when
  that returned a controller and no error, started in the state the construction left.
  The result is \<open>None\<close> when no controller was built.
\<close>

definition start_metrics_receiver ::
  "('cc \<Rightarrow> 'e \<Rightarrow> 'm \<Rightarrow> 's ScraperControllerOption list
      \<Rightarrow> ('cc, 'e, 'm, 's) controller option \<times> error option)
    \<Rightarrow> 'x \<Rightarrow> 'e \<Rightarrow> ('cc, 'c) component_Config \<Rightarrow> 'm \<Rightarrow> ('x, 'e, 'c, 's) globals
    \<Rightarrow> 's scraper_start list option" where
  "start_metrics_receiver N ctx rset config consumer g =
     (case fst (createMetricsReceiver N ctx rset config consumer g) of
        Panics \<Rightarrow> None
      | Returns (receiver, err) \<Rightarrow>
          (case err of
             Some e \<Rightarrow> None
           | None \<Rightarrow>
               (case receiver of
                  None \<Rightarrow> None
                | Some ctl \<Rightarrow>
                    Some (controller_Start ctl
                            (snd (createMetricsReceiver N ctx rset config consumer g))))))"

section \<open>Example inputs\<close>

text \<open>
  Small inputs at which the theorems below are evaluated: two factories (one that
  returns a scraper, one that returns an error), a package-level state whose registry
  holds them under the keys \<open>load\<close> and \<open>disk\<close>, a configuration with given scraper keys, a
  controller constructor that returns its options as the receiver, a handle-count state
  and two scrapers; then a second state whose registry holds a factory that returns a
  scraper under each of the keys \<open>load\<close> and \<open>cpu\<close>, and a controller constructor that
  returns an error.
\<close>

definition example_loadFactory :: "(unit, unit, unit, string) ScraperFactory" where
  "example_loadFactory =
     \<lparr>CreateDefaultConfig = (),
      CreateMetricsScraper = (\<lambda>ctx rset config. Returns (Some ''load scraper'', None))\<rparr>"

definition example_failingFactory :: "(unit, unit, unit, string) ScraperFactory" where
  "example_failingFactory =
     \<lparr>CreateDefaultConfig = (),
      CreateMetricsScraper = (\<lambda>ctx rset config. Returns (None, Some (Err ''unsupported'')))\<rparr>"

definition example_globals :: "(unit, unit, unit, string) globals" where
  "example_globals =
     \<lparr>scraperFactories =
        Map.empty(loadscraper_TypeStr \<mapsto> Some example_loadFactory,
                  ''disk'' \<mapsto> Some example_failingFactory),
      host_enableBootTimeCache = False,
      process_enableBootTimeCache = False,
      libraryCalls = []\<rparr>"

definition example_Config :: "string list \<Rightarrow> (unit, unit) Config" where
  "example_Config keys =
     \<lparr>ControllerConfig = (),
      MetadataCollectionInterval = defaultMetadataCollectionInterval,
      Scrapers = map (\<lambda>key. (key, ())) keys\<rparr>"

definition example_NewScraperControllerReceiver ::
  "unit \<Rightarrow> unit \<Rightarrow> unit \<Rightarrow> string ScraperControllerOption list
    \<Rightarrow> string ScraperControllerOption list option \<times> error option" where
  "example_NewScraperControllerReceiver controllerConfig rset consumer options =
     (Some options, None)"

definition example_world :: handle_world where
  "example_world = \<lparr>os_handleCounts = Inr (Map.empty(4 \<mapsto> 17)), handleCounts = Map.empty\<rparr>"

definition example_loadScraper :: "(unit, string) Scraper" where
  "example_loadScraper =
     \<lparr>scraperKey = ''load'', scrape = (\<lambda>w. Data [''load average''])\<rparr>"

definition example_cpuScraper :: "(unit, string) Scraper" where
  "example_cpuScraper =
     \<lparr>scraperKey = ''cpu'', scrape = (\<lambda>w. PartialData [''cpu time''] (Err ''one core unread''))\<rparr>"

definition example_diskScraper :: "(unit, string) Scraper" where
  "example_diskScraper =
     \<lparr>scraperKey = ''disk'', scrape = (\<lambda>w. Fatal (Err ''unreadable''))\<rparr>"

definition example_cpuFactory :: "(unit, unit, unit, string) ScraperFactory" where
  "example_cpuFactory =
     \<lparr>CreateDefaultConfig = (),
      CreateMetricsScraper = (\<lambda>ctx rset config. Returns (Some ''cpu scraper'', None))\<rparr>"

definition example_cacheGlobals :: "(unit, unit, unit, string) globals" where
  "example_cacheGlobals =
     \<lparr>scraperFactories =
        Map.empty(loadscraper_TypeStr \<mapsto> Some example_loadFactory,
                  ''cpu'' \<mapsto> Some example_cpuFactory),
      host_enableBootTimeCache = False,
      process_enableBootTimeCache = False,
      libraryCalls = []\<rparr>"

definition example_failing_NewScraperControllerReceiver ::
  "unit \<Rightarrow> unit \<Rightarrow> unit \<Rightarrow> string ScraperControllerOption list
    \<Rightarrow> (unit, unit, unit, string) controller option \<times> error option" where
  "example_failing_NewScraperControllerReceiver controllerCfg rset consumer options =
     (None, Some (Err ''nil next consumer''))"

section \<open>Unfolding the examples\<close>

lemmas example_defs =
  example_loadFactory_def example_failingFactory_def example_globals_def example_Config_def
  example_NewScraperControllerReceiver_def loadscraper_TypeStr_def

lemmas example_cache_defs =
  example_cpuFactory_def example_cacheGlobals_def
  example_failing_NewScraperControllerReceiver_def new_controller_def added_scraper_def

section \<open>The default configuration\<close>

lemma Minute_ns: "Minute = 60000000000"
  by (simp add: Minute_def Second_def Millisecond_def Microsecond_def Nanosecond_def)

text \<open>
  Claim C7. The default configuration built by \<open>createDefaultConfig\<close> is a non-nil
  \<open>*Config\<close> whose metadata collection interval is exactly five minutes: five times
  \<open>time.Minute\<close>, that is 300 seconds or 300 000 000 000 nanoseconds, a value the signed
  64-bit duration holds without wrapping.
\<close>

theorem createDefaultConfig_metadata_interval:
  "\<exists>c. createDefaultConfig dflt = ConfigPtr (Some c)
      \<and> ControllerConfig c = dflt
      \<and> MetadataCollectionInterval c = 5 * Minute
      \<and> MetadataCollectionInterval c = 300 * Second
      \<and> sint (MetadataCollectionInterval c) = 5 * 60 * 1000000000"
  by (simp add: createDefaultConfig_def defaultMetadataCollectionInterval_def Minute_ns
      Second_def Millisecond_def Microsecond_def Nanosecond_def)

section \<open>The registry\<close>

text \<open>The keys of the map literal are the \<open>TypeStr\<close> constants of the ten packages.\<close>

lemma UNIV_scraper_package:
  "(UNIV :: scraper_package set) =
     {cpuscraper, diskscraper, loadscraper, filesystemscraper, memoryscraper,
      networkscraper, pagingscraper, processesscraper, processscraper, systemscraper}"
proof -
  have "p \<in> {cpuscraper, diskscraper, loadscraper, filesystemscraper, memoryscraper,
      networkscraper, pagingscraper, processesscraper, processscraper, systemscraper}" for p
    by (cases p) simp_all
  then show ?thesis by blast
qed

lemma dom_scraperFactories_literal:
  "dom (scraperFactories_literal others Factory) = range (TypeStr others)"
  by (simp add: scraperFactories_literal_def UNIV_scraper_package insert_commute)

lemma scraperFactories_literal_no_nil:
  "scraperFactories_literal others Factory key \<noteq> Some None"
  by (simp add: scraperFactories_literal_def)

lemma scraperFactories_literal_load:
  "\<exists>factory. scraperFactories_literal others Factory ''load'' = Some (Some factory)"
  by (simp add: scraperFactories_literal_def TypeStr_def loadscraper_TypeStr_def)

lemma createMetricsReceiver_scraperFactories:
  "scraperFactories (snd (createMetricsReceiver N ctx rset config consumer g)) = scraperFactories g"
  by (simp add: createMetricsReceiver_def host_EnableBootTimeCache_def
      process_EnableBootTimeCache_def Let_def
      split: component_Config.splits outcome.splits sum.splits option.splits)

lemma after_call_scraperFactories:
  "scraperFactories (after_call N call g) = scraperFactories g"
  by (cases call) (simp_all add: createMetricsReceiver_scraperFactories)

lemma after_calls_scraperFactories:
  "scraperFactories (after_calls N calls g) = scraperFactories g"
  by (induction calls arbitrary: g) (simp_all add: after_call_scraperFactories)

text \<open>
  Claim C6. \<open>getScraperFactory\<close> returns the value stored under the key and true when
  the key is in \<open>scraperFactories\<close>, and nil and false otherwise. No sequence of calls of
  the package's functions changes \<open>scraperFactories\<close>, so a lookup after any such sequence
  gives what it gave before. With the variable initialised by its map literal, every
  later lookup finds exactly the \<open>TypeStr\<close> keys of the ten scraper packages, each with
  the factory that the literal stores.
\<close>

theorem getScraperFactory_lookup_never_changes:
  "getScraperFactory g key =
     (if key \<in> dom (scraperFactories g) then (the (scraperFactories g key), True)
      else (None, False))
   \<and> scraperFactories (after_calls N calls g) = scraperFactories g
   \<and> getScraperFactory (after_calls N calls g) key = getScraperFactory g key
   \<and> getScraperFactory
        (after_calls N calls (g\<lparr>scraperFactories := scraperFactories_literal others Factory\<rparr>))
        key =
       (if key \<in> range (TypeStr others)
        then (the (scraperFactories_literal others Factory key), True)
        else (None, False))"
proof -
  have lookup: "getScraperFactory h key =
     (if key \<in> dom (scraperFactories h) then (the (scraperFactories h key), True)
      else (None, False))" for h :: "('a, 'b, 'c, 'd) globals"
    by (auto simp: getScraperFactory_def split: option.splits)
  have same: "getScraperFactory (after_calls N calls h) key = getScraperFactory h key"
    for h :: "('a, 'b, 'c, 'd) globals"
    by (simp add: getScraperFactory_def after_calls_scraperFactories)
  have literal: "getScraperFactory
        (after_calls N calls (g\<lparr>scraperFactories := scraperFactories_literal others Factory\<rparr>))
        key =
       (if key \<in> range (TypeStr others)
        then (the (scraperFactories_literal others Factory key), True)
        else (None, False))"
    unfolding same by (simp add: lookup dom_scraperFactories_literal)
  show ?thesis
    by (intro conjI) (fact lookup, fact after_calls_scraperFactories, fact same, fact literal)
qed

section \<open>The loop over the configured scrapers\<close>

text \<open>
  While every entry visited is built, the loop appends one option per entry. At the first
  entry that is not built it stops, with the outcome of \<open>createHostMetricsScraper\<close> for
  that entry.
\<close>

lemma range_Scrapers_built:
  "list_all (is_built ctx rset factories) entries \<Longrightarrow>
   range_Scrapers ctx rset entries factories acc =
     Returns (Inr (acc @ map (built_option ctx rset factories) entries))"
proof (induction entries arbitrary: acc)
  case Nil
  then show ?case by simp
next
  case (Cons entry entries)
  obtain key config where entry: "entry = (key, config)" by (cases entry)
  from Cons.prems have b: "is_built ctx rset factories (key, config)"
    and rest: "list_all (is_built ctx rset factories) entries"
    by (simp_all add: entry)
  from b obtain factory s where f: "index_factories factories key = Some factory"
    and r: "CreateMetricsScraper factory ctx rset config = Returns (s, None)"
    by (auto simp: is_built_def split: option.splits outcome.splits)
  have h: "createHostMetricsScraper ctx rset key config factories = Returns (s, True, None)"
    by (simp add: createHostMetricsScraper_def f r)
  have o: "built_option ctx rset factories (key, config) = AddScraper metadata_Type s"
    by (simp add: built_option_def f r)
  show ?case
    by (simp add: entry h o Cons.IH [OF rest])
qed

lemma range_Scrapers_first_not_built:
  assumes "list_all (is_built ctx rset factories) pre"
    and "\<not> is_built ctx rset factories (key, config)"
  shows "range_Scrapers ctx rset (pre @ (key, config) # post) factories acc =
     (case createHostMetricsScraper ctx rset key config factories of
        Panics \<Rightarrow> Panics
      | Returns (s, ok, err) \<Rightarrow>
          (case err of
             Some e \<Rightarrow> Returns (Inl (FailedToCreateScraper key e))
           | None \<Rightarrow> Returns (Inl (FactoryNotFound key))))"
  using assms
proof (induction pre arbitrary: acc)
  case Nil
  then show ?case
    by (auto simp: is_built_def createHostMetricsScraper_def
        split: option.splits outcome.splits)
next
  case (Cons entry pre)
  obtain k c where entry: "entry = (k, c)" by (cases entry)
  from Cons.prems have b: "is_built ctx rset factories (k, c)"
    and rest: "list_all (is_built ctx rset factories) pre"
    by (simp_all add: entry)
  from b obtain factory s where f: "index_factories factories k = Some factory"
    and r: "CreateMetricsScraper factory ctx rset c = Returns (s, None)"
    by (auto simp: is_built_def split: option.splits outcome.splits)
  have h: "createHostMetricsScraper ctx rset k c factories = Returns (s, True, None)"
    by (simp add: createHostMetricsScraper_def f r)
  show ?case
    by (simp add: entry h Cons.IH [OF rest Cons.prems(2)])
qed

lemma not_all_built_split:
  "\<not> list_all P entries \<Longrightarrow>
   \<exists>pre entry post. entries = pre @ entry # post \<and> list_all P pre \<and> \<not> P entry"
proof (induction entries)
  case Nil
  then show ?case by simp
next
  case (Cons a entries)
  show ?case
  proof (cases "P a")
    case True
    with Cons.prems have "\<not> list_all P entries" by simp
    from Cons.IH [OF this] obtain pre entry post
      where "entries = pre @ entry # post" "list_all P pre" "\<not> P entry" by blast
    with True have "a # entries = (a # pre) @ entry # post \<and> list_all P (a # pre) \<and> \<not> P entry"
      by simp
    then show ?thesis by blast
  next
    case False
    then have "a # entries = [] @ a # entries \<and> list_all P [] \<and> \<not> P a" by simp
    then show ?thesis by blast
  qed
qed

lemma range_Scrapers_not_built:
  assumes "\<not> list_all (is_built ctx rset factories) entries"
  shows "range_Scrapers ctx rset entries factories acc = Panics
       \<or> (\<exists>err. range_Scrapers ctx rset entries factories acc = Returns (Inl err))"
proof -
  from not_all_built_split [OF assms] obtain pre entry post
    where e: "entries = pre @ entry # post"
      and p: "list_all (is_built ctx rset factories) pre"
      and n: "\<not> is_built ctx rset factories entry" by blast
  obtain key config where entry: "entry = (key, config)" by (cases entry)
  show ?thesis
    using range_Scrapers_first_not_built [OF p n [unfolded entry], of post acc]
    by (auto simp: e entry split: outcome.splits option.splits)
qed

section \<open>Errors of scraper construction\<close>

lemma range_Scrapers_FactoryNotFound:
  "range_Scrapers ctx rset entries factories acc = Returns (Inl (FactoryNotFound k)) \<Longrightarrow>
   k \<in> fst ` set entries \<and> index_factories factories k = None"
proof (induction entries arbitrary: acc)
  case Nil
  then show ?case by simp
next
  case (Cons entry entries)
  obtain key config where entry: "entry = (key, config)" by (cases entry)
  show ?case
  proof (cases "is_built ctx rset factories (key, config)")
    case True
    then have "list_all (is_built ctx rset factories) [(key, config)]" by simp
    from range_Scrapers_built [OF this, of acc]
    have "range_Scrapers ctx rset [(key, config)] factories acc =
            Returns (Inr (acc @ [built_option ctx rset factories (key, config)]))" by simp
    then have "range_Scrapers ctx rset (entry # entries) factories acc =
       range_Scrapers ctx rset entries factories
         (acc @ [built_option ctx rset factories (key, config)])"
      by (auto simp: entry split: outcome.splits option.splits if_splits)
    with Cons.prems Cons.IH show ?thesis by auto
  next
    case False
    from range_Scrapers_first_not_built [of ctx rset factories "[]", OF _ False, of entries acc]
    have "range_Scrapers ctx rset (entry # entries) factories acc =
     (case createHostMetricsScraper ctx rset key config factories of
        Panics \<Rightarrow> Panics
      | Returns (s, ok, err) \<Rightarrow>
          (case err of
             Some e \<Rightarrow> Returns (Inl (FailedToCreateScraper key e))
           | None \<Rightarrow> Returns (Inl (FactoryNotFound key))))"
      by (simp add: entry)
    with Cons.prems False show ?thesis
      by (auto simp: entry createHostMetricsScraper_def is_built_def
          split: outcome.splits option.splits)
  qed
qed

text \<open>
  Claim C9. \<open>createHostMetricsScraper\<close> returns \<open>ok = false\<close> only when indexing the
  factories with the key gives nil, and then with a nil scraper and a nil error. When the
  key has a factory and its \<open>CreateMetricsScraper\<close> returns an error, it returns
  \<open>ok = true\<close> together with that error, and \<open>createAddScraperOptions\<close>, reaching that
  entry, reports the failure to create the scraper for the key, wrapping the error.
  Whenever \<open>createAddScraperOptions\<close> reports that the factory was not found for a key,
  that key is a configured key without a factory.
\<close>

theorem createHostMetricsScraper_ok_false_only_unregistered:
  "(createHostMetricsScraper ctx rset key config factories = Returns (s, False, err)
      \<longrightarrow> index_factories factories key = None \<and> s = None \<and> err = None)
   \<and> (index_factories factories key = Some factory
        \<and> CreateMetricsScraper factory ctx rset config = Returns (s', Some e)
      \<longrightarrow> createHostMetricsScraper ctx rset key config factories = Returns (s', True, Some e))
   \<and> (Scrapers c = pre @ (key, config) # post
        \<and> list_all (is_built ctx rset factories) pre
        \<and> index_factories factories key = Some factory
        \<and> CreateMetricsScraper factory ctx rset config = Returns (s', Some e)
      \<longrightarrow> createAddScraperOptions ctx rset (Some c) factories =
            Returns (Inl (FailedToCreateScraper key e)))
   \<and> (createAddScraperOptions ctx rset (Some c) factories = Returns (Inl (FactoryNotFound k))
      \<longrightarrow> k \<in> fst ` set (Scrapers c) \<and> index_factories factories k = None)"
proof -
  have p1: "createHostMetricsScraper ctx rset key config factories = Returns (s, False, err)
      \<longrightarrow> index_factories factories key = None \<and> s = None \<and> err = None"
    by (auto simp: createHostMetricsScraper_def split: option.splits outcome.splits)
  have p2: "index_factories factories key = Some factory
        \<and> CreateMetricsScraper factory ctx rset config = Returns (s', Some e)
      \<longrightarrow> createHostMetricsScraper ctx rset key config factories = Returns (s', True, Some e)"
    by (simp add: createHostMetricsScraper_def)
  have p3: "Scrapers c = pre @ (key, config) # post
        \<and> list_all (is_built ctx rset factories) pre
        \<and> index_factories factories key = Some factory
        \<and> CreateMetricsScraper factory ctx rset config = Returns (s', Some e)
      \<longrightarrow> createAddScraperOptions ctx rset (Some c) factories =
            Returns (Inl (FailedToCreateScraper key e))"
  proof
    assume a: "Scrapers c = pre @ (key, config) # post
        \<and> list_all (is_built ctx rset factories) pre
        \<and> index_factories factories key = Some factory
        \<and> CreateMetricsScraper factory ctx rset config = Returns (s', Some e)"
    then have n: "\<not> is_built ctx rset factories (key, config)"
      by (simp add: is_built_def)
    from a have p: "list_all (is_built ctx rset factories) pre" by simp
    from a have h: "createHostMetricsScraper ctx rset key config factories = Returns (s', True, Some e)"
      by (simp add: createHostMetricsScraper_def)
    show "createAddScraperOptions ctx rset (Some c) factories =
            Returns (Inl (FailedToCreateScraper key e))"
      using range_Scrapers_first_not_built [OF p n, of post "[]"] a
      by (simp add: createAddScraperOptions_def h)
  qed
  have p4: "createAddScraperOptions ctx rset (Some c) factories = Returns (Inl (FactoryNotFound k))
      \<longrightarrow> k \<in> fst ` set (Scrapers c) \<and> index_factories factories k = None"
    using range_Scrapers_FactoryNotFound [of ctx rset "Scrapers c" factories "[]" k]
    by (simp add: createAddScraperOptions_def)
  show ?thesis
    by (intro conjI) (fact p1, fact p2, fact p3, fact p4)
qed

theorem createHostMetricsScraper_ok_false_only_unregistered_witness:
  "createHostMetricsScraper () () ''cpu'' () (scraperFactories example_globals)
     = Returns (None, False, None)
   \<and> index_factories (scraperFactories example_globals) ''cpu'' = None
   \<and> index_factories (scraperFactories example_globals) ''disk'' = Some example_failingFactory
   \<and> CreateMetricsScraper example_failingFactory () () () = Returns (None, Some (Err ''unsupported''))
   \<and> createHostMetricsScraper () () ''disk'' () (scraperFactories example_globals)
     = Returns (None, True, Some (Err ''unsupported''))
   \<and> Scrapers (example_Config [''load'', ''disk'', ''cpu'']) = [(''load'', ())] @ (''disk'', ()) # [(''cpu'', ())]
   \<and> list_all (is_built () () (scraperFactories example_globals)) [(''load'', ())]
   \<and> createAddScraperOptions () () (Some (example_Config [''load'', ''disk'', ''cpu'']))
        (scraperFactories example_globals)
     = Returns (Inl (FailedToCreateScraper ''disk'' (Err ''unsupported'')))
   \<and> createAddScraperOptions () () (Some (example_Config [''load'', ''cpu'', ''disk'']))
        (scraperFactories example_globals)
     = Returns (Inl (FactoryNotFound ''cpu''))
   \<and> ''cpu'' \<in> fst ` set (Scrapers (example_Config [''load'', ''cpu'', ''disk'']))"
  using createHostMetricsScraper_ok_false_only_unregistered
    [of "()" "()" "''disk''" "()" "scraperFactories example_globals" None None
        example_failingFactory None "Err ''unsupported''"
        "example_Config [''load'', ''disk'', ''cpu'']" "[(''load'', ())]" "[(''cpu'', ())]"
        "''cpu''"]
  by (simp add: example_defs createHostMetricsScraper_def index_factories_def is_built_def
      createAddScraperOptions_def)

section \<open>Construction of the metrics receiver\<close>

lemma createAddScraperOptions_built:
  "list_all (is_built ctx rset factories) (Scrapers c) \<Longrightarrow>
   createAddScraperOptions ctx rset (Some c) factories =
     Returns (Inr (map (built_option ctx rset factories) (Scrapers c)))"
  using range_Scrapers_built [of ctx rset factories "Scrapers c" "[]"]
  by (simp add: createAddScraperOptions_def)

lemma createAddScraperOptions_not_built:
  "\<not> list_all (is_built ctx rset factories) (Scrapers c) \<Longrightarrow>
   createAddScraperOptions ctx rset (Some c) factories = Panics
   \<or> (\<exists>err. createAddScraperOptions ctx rset (Some c) factories = Returns (Inl err))"
  using range_Scrapers_not_built [of ctx rset factories "Scrapers c" "[]"]
  by (simp add: createAddScraperOptions_def)

lemma createMetricsReceiver_built:
  assumes "list_all (is_built ctx rset (scraperFactories g)) (Scrapers c)"
  shows "createMetricsReceiver N ctx rset (ConfigPtr (Some c)) consumer g =
     (Returns (N (ControllerConfig c) rset consumer
                 (map (built_option ctx rset (scraperFactories g)) (Scrapers c))),
      g\<lparr>host_enableBootTimeCache := True, process_enableBootTimeCache := True,
        libraryCalls := libraryCalls g @
          [HostEnableBootTimeCache True, ProcessEnableBootTimeCache True,
           NewScraperControllerReceiverCall]\<rparr>)"
  by (simp add: createMetricsReceiver_def createAddScraperOptions_built [OF assms]
      host_EnableBootTimeCache_def process_EnableBootTimeCache_def)

lemma createMetricsReceiver_not_built:
  assumes "\<not> list_all (is_built ctx rset (scraperFactories g)) (Scrapers c)"
  shows "createMetricsReceiver N ctx rset (ConfigPtr (Some c)) consumer g = (Panics, g)
     \<or> (\<exists>err. createMetricsReceiver N ctx rset (ConfigPtr (Some c)) consumer g =
           (Returns (None, Some err), g))"
  using createAddScraperOptions_not_built [OF assms]
  by (auto simp: createMetricsReceiver_def)

text \<open>
  Claim C1, as amended. For a non-nil \<open>*Config\<close>, \<open>createAddScraperOptions\<close> succeeds if
  and only if every configured entry is built: its key resolves to a factory that is not
  nil, and that factory's \<open>CreateMetricsScraper\<close> returns a nil error. In that case
  \<open>createMetricsReceiver\<close> returns what \<open>NewScraperControllerReceiver\<close> returns for the
  scrapers built. Otherwise it produces no receiver and leaves the package-level state
  as it was: it returns a nil receiver with an error, or panics where a factory panics.
  When the first entry, in the order of iteration, that is not built has a key that does
  not resolve, the error is the one that names this key as not found; when its factory
  returned an error, it is the failure to create the scraper for this key, wrapping that
  error.
\<close>

theorem createMetricsReceiver_succeeds_iff_all_built:
  "((\<exists>opts. createAddScraperOptions ctx rset (Some c) (scraperFactories g) = Returns (Inr opts))
      = list_all (is_built ctx rset (scraperFactories g)) (Scrapers c))
   \<and> (list_all (is_built ctx rset (scraperFactories g)) (Scrapers c)
      \<longrightarrow> fst (createMetricsReceiver N ctx rset (ConfigPtr (Some c)) consumer g) =
            Returns (N (ControllerConfig c) rset consumer
                       (map (built_option ctx rset (scraperFactories g)) (Scrapers c))))
   \<and> (\<not> list_all (is_built ctx rset (scraperFactories g)) (Scrapers c)
      \<longrightarrow> createMetricsReceiver N ctx rset (ConfigPtr (Some c)) consumer g = (Panics, g)
          \<or> (\<exists>err. createMetricsReceiver N ctx rset (ConfigPtr (Some c)) consumer g =
                (Returns (None, Some err), g)))
   \<and> (Scrapers c = pre @ entry # post
        \<and> list_all (is_built ctx rset (scraperFactories g)) pre
        \<and> \<not> resolves (scraperFactories g) entry
      \<longrightarrow> createMetricsReceiver N ctx rset (ConfigPtr (Some c)) consumer g =
            (Returns (None, Some (FactoryNotFound (fst entry))), g))
   \<and> (Scrapers c = pre @ entry # post
        \<and> list_all (is_built ctx rset (scraperFactories g)) pre
        \<and> index_factories (scraperFactories g) (fst entry) = Some factory
        \<and> CreateMetricsScraper factory ctx rset (snd entry) = Returns (s, Some e)
      \<longrightarrow> createMetricsReceiver N ctx rset (ConfigPtr (Some c)) consumer g =
            (Returns (None, Some (FailedToCreateScraper (fst entry) e)), g))"
proof -
  let ?all = "list_all (is_built ctx rset (scraperFactories g)) (Scrapers c)"
  have p1: "(\<exists>opts. createAddScraperOptions ctx rset (Some c) (scraperFactories g) = Returns (Inr opts))
      = ?all"
  proof (cases ?all)
    case True
    then show ?thesis by (simp add: createAddScraperOptions_built)
  next
    case False
    from createAddScraperOptions_not_built [OF False] False show ?thesis by auto
  qed
  have p2: "?all \<longrightarrow> fst (createMetricsReceiver N ctx rset (ConfigPtr (Some c)) consumer g) =
            Returns (N (ControllerConfig c) rset consumer
                       (map (built_option ctx rset (scraperFactories g)) (Scrapers c)))"
    by (simp add: createMetricsReceiver_built)
  have p3: "\<not> ?all
      \<longrightarrow> createMetricsReceiver N ctx rset (ConfigPtr (Some c)) consumer g = (Panics, g)
          \<or> (\<exists>err. createMetricsReceiver N ctx rset (ConfigPtr (Some c)) consumer g =
                (Returns (None, Some err), g))"
    using createMetricsReceiver_not_built [of ctx rset g c N consumer] by blast
  have p4: "Scrapers c = pre @ entry # post
        \<and> list_all (is_built ctx rset (scraperFactories g)) pre
        \<and> \<not> resolves (scraperFactories g) entry
      \<longrightarrow> createMetricsReceiver N ctx rset (ConfigPtr (Some c)) consumer g =
            (Returns (None, Some (FactoryNotFound (fst entry))), g)"
  proof
    assume a: "Scrapers c = pre @ entry # post
        \<and> list_all (is_built ctx rset (scraperFactories g)) pre
        \<and> \<not> resolves (scraperFactories g) entry"
    obtain key config where entry: "entry = (key, config)" by (cases entry)
    from a have i: "index_factories (scraperFactories g) key = None"
      by (simp add: resolves_def entry split: option.splits)
    then have n: "\<not> is_built ctx rset (scraperFactories g) (key, config)"
      by (simp add: is_built_def)
    from a have p: "list_all (is_built ctx rset (scraperFactories g)) pre" by simp
    have "createAddScraperOptions ctx rset (Some c) (scraperFactories g) =
            Returns (Inl (FactoryNotFound key))"
      using range_Scrapers_first_not_built [OF p n, of post "[]"] a
      by (simp add: createAddScraperOptions_def createHostMetricsScraper_def i entry)
    then show "createMetricsReceiver N ctx rset (ConfigPtr (Some c)) consumer g =
            (Returns (None, Some (FactoryNotFound (fst entry))), g)"
      by (simp add: createMetricsReceiver_def entry)
  qed
  have p5: "Scrapers c = pre @ entry # post
        \<and> list_all (is_built ctx rset (scraperFactories g)) pre
        \<and> index_factories (scraperFactories g) (fst entry) = Some factory
        \<and> CreateMetricsScraper factory ctx rset (snd entry) = Returns (s, Some e)
      \<longrightarrow> createMetricsReceiver N ctx rset (ConfigPtr (Some c)) consumer g =
            (Returns (None, Some (FailedToCreateScraper (fst entry) e)), g)"
  proof
    assume a: "Scrapers c = pre @ entry # post
        \<and> list_all (is_built ctx rset (scraperFactories g)) pre
        \<and> index_factories (scraperFactories g) (fst entry) = Some factory
        \<and> CreateMetricsScraper factory ctx rset (snd entry) = Returns (s, Some e)"
    obtain key config where entry: "entry = (key, config)" by (cases entry)
    from a have i: "index_factories (scraperFactories g) key = Some factory"
      and r: "CreateMetricsScraper factory ctx rset config = Returns (s, Some e)"
      by (simp_all add: entry)
    then have n: "\<not> is_built ctx rset (scraperFactories g) (key, config)"
      by (simp add: is_built_def)
    from a have p: "list_all (is_built ctx rset (scraperFactories g)) pre" by simp
    have "createAddScraperOptions ctx rset (Some c) (scraperFactories g) =
            Returns (Inl (FailedToCreateScraper key e))"
      using range_Scrapers_first_not_built [OF p n, of post "[]"] a
      by (simp add: createAddScraperOptions_def createHostMetricsScraper_def i r entry)
    then show "createMetricsReceiver N ctx rset (ConfigPtr (Some c)) consumer g =
            (Returns (None, Some (FailedToCreateScraper (fst entry) e)), g)"
      by (simp add: createMetricsReceiver_def entry)
  qed
  show ?thesis
    by (intro conjI) (fact p1, fact p2, fact p3, fact p4, fact p5)
qed

theorem createMetricsReceiver_succeeds_iff_all_built_witness:
  "list_all (is_built () () (scraperFactories example_globals))
      (Scrapers (example_Config [''load'']))
   \<and> fst (createMetricsReceiver example_NewScraperControllerReceiver () ()
            (ConfigPtr (Some (example_Config [''load'']))) () example_globals)
      = Returns (Some [AddScraper metadata_Type (Some ''load scraper'')], None)
   \<and> \<not> list_all (is_built () () (scraperFactories example_globals))
          (Scrapers (example_Config [''load'', ''cpu'']))
   \<and> Scrapers (example_Config [''load'', ''cpu'']) = [(''load'', ())] @ (''cpu'', ()) # []
   \<and> \<not> resolves (scraperFactories example_globals) (''cpu'', ())
   \<and> createMetricsReceiver example_NewScraperControllerReceiver () ()
        (ConfigPtr (Some (example_Config [''load'', ''cpu'']))) () example_globals
      = (Returns (None, Some (FactoryNotFound ''cpu'')), example_globals)
   \<and> Scrapers (example_Config [''load'', ''disk'', ''cpu''])
      = [(''load'', ())] @ (''disk'', ()) # [(''cpu'', ())]
   \<and> index_factories (scraperFactories example_globals) ''disk'' = Some example_failingFactory
   \<and> CreateMetricsScraper example_failingFactory () () ()
      = Returns (None, Some (Err ''unsupported''))
   \<and> createMetricsReceiver example_NewScraperControllerReceiver () ()
        (ConfigPtr (Some (example_Config [''load'', ''disk'', ''cpu'']))) () example_globals
      = (Returns (None, Some (FailedToCreateScraper ''disk'' (Err ''unsupported''))),
         example_globals)"
  using createMetricsReceiver_succeeds_iff_all_built
      [of "()" "()" "example_Config [''load'']" example_globals
          example_NewScraperControllerReceiver "()" "[]" "(''load'', ())" "[]"
          example_loadFactory None "Err ''unsupported''"]
    createMetricsReceiver_succeeds_iff_all_built
      [of "()" "()" "example_Config [''load'', ''cpu'']" example_globals
          example_NewScraperControllerReceiver "()" "[(''load'', ())]" "(''cpu'', ())" "[]"
          example_loadFactory None "Err ''unsupported''"]
    createMetricsReceiver_succeeds_iff_all_built
      [of "()" "()" "example_Config [''load'', ''disk'', ''cpu'']" example_globals
          example_NewScraperControllerReceiver "()" "[(''load'', ())]" "(''disk'', ())"
          "[(''cpu'', ())]" example_failingFactory None "Err ''unsupported''"]
  by (simp add: example_defs is_built_def resolves_def index_factories_def built_option_def)

text \<open>
  Every key of this configuration resolves to a registered factory, and yet no receiver
  is built: the factory registered for \<open>disk\<close> returns an error.
\<close>

theorem createMetricsReceiver_fails_though_all_keys_resolve:
  "list_all (resolves (scraperFactories example_globals))
      (Scrapers (example_Config [''load'', ''disk'']))
   \<and> createMetricsReceiver example_NewScraperControllerReceiver () ()
        (ConfigPtr (Some (example_Config [''load'', ''disk'']))) () example_globals
      = (Returns (None, Some (FailedToCreateScraper ''disk'' (Err ''unsupported''))),
         example_globals)"
  by (simp add: example_defs resolves_def index_factories_def createMetricsReceiver_def
      createAddScraperOptions_def createHostMetricsScraper_def)

section \<open>Boot-time caching\<close>

lemma createMetricsReceiver_state_cases:
  "snd (createMetricsReceiver N ctx rset config consumer g) = g
   \<or> snd (createMetricsReceiver N ctx rset config consumer g) =
        process_EnableBootTimeCache True (host_EnableBootTimeCache True g)
   \<or> snd (createMetricsReceiver N ctx rset config consumer g) =
        (process_EnableBootTimeCache True (host_EnableBootTimeCache True g))
          \<lparr>libraryCalls :=
             libraryCalls (process_EnableBootTimeCache True (host_EnableBootTimeCache True g))
               @ [NewScraperControllerReceiverCall]\<rparr>"
proof (cases config)
  case OtherConfig
  then show ?thesis by (simp add: createMetricsReceiver_def)
next
  case (ConfigPtr oCfg)
  show ?thesis
  proof (cases "createAddScraperOptions ctx rset oCfg (scraperFactories g)")
    case Panics
    then show ?thesis by (simp add: createMetricsReceiver_def ConfigPtr)
  next
    case (Returns r)
    show ?thesis
    proof (cases r)
      case (Inl err)
      then show ?thesis by (simp add: createMetricsReceiver_def ConfigPtr Returns)
    next
      case (Inr opts)
      with Returns
      have e: "createAddScraperOptions ctx rset oCfg (scraperFactories g) = Returns (Inr opts)"
        by simp
      show ?thesis
      proof (cases oCfg)
        case None
        with e show ?thesis by (simp add: createMetricsReceiver_def ConfigPtr Let_def)
      next
        case (Some c)
        with e show ?thesis by (simp add: createMetricsReceiver_def ConfigPtr Let_def)
      qed
    qed
  qed
qed

lemma createMetricsReceiver_host_switch_stays:
  "host_enableBootTimeCache g \<Longrightarrow>
   host_enableBootTimeCache (snd (createMetricsReceiver N ctx rset config consumer g))"
  using createMetricsReceiver_state_cases [of N ctx rset config consumer g]
  by (auto simp: host_EnableBootTimeCache_def process_EnableBootTimeCache_def)

lemma createMetricsReceiver_process_switch_stays:
  "process_enableBootTimeCache g \<Longrightarrow>
   process_enableBootTimeCache (snd (createMetricsReceiver N ctx rset config consumer g))"
  using createMetricsReceiver_state_cases [of N ctx rset config consumer g]
  by (auto simp: host_EnableBootTimeCache_def process_EnableBootTimeCache_def)

lemma createMetricsReceiver_not_built_state:
  assumes "\<not> list_all (is_built ctx rset (scraperFactories g)) (Scrapers c)"
  shows "snd (createMetricsReceiver N ctx rset (ConfigPtr (Some c)) consumer g) = g"
  using createMetricsReceiver_not_built [OF assms, of N consumer] by auto

text \<open>
  Claim C5, as amended. Boot-time caching is enabled by \<open>createMetricsReceiver\<close>, the
  receiver factory, and not by the controller. Whenever all configured scrapers are built,
  however many they are, it calls \<open>host.EnableBootTimeCache(true)\<close> and
  \<open>process.EnableBootTimeCache(true)\<close> once each and then constructs the controller, so
  that every start operation the controller runs finds both caches enabled; it has
  enabled them also when the construction of the controller then returns an error.
  Enabling is idempotent: after any further call of \<open>createMetricsReceiver\<close> both
  switches are still on. When a configured scraper is not built, nothing is enabled and
  no scraper is started.
\<close>

theorem boot_time_cache_enabled_by_receiver_factory:
  "(list_all (is_built ctx rset (scraperFactories g)) (Scrapers c)
    \<longrightarrow> libraryCalls (snd (createMetricsReceiver N ctx rset (ConfigPtr (Some c)) consumer g)) =
          libraryCalls g @
            [HostEnableBootTimeCache True, ProcessEnableBootTimeCache True,
             NewScraperControllerReceiverCall]
       \<and> host_enableBootTimeCache
            (snd (createMetricsReceiver N ctx rset (ConfigPtr (Some c)) consumer g))
       \<and> process_enableBootTimeCache
            (snd (createMetricsReceiver N ctx rset (ConfigPtr (Some c)) consumer g))
       \<and> host_enableBootTimeCache
            (snd (createMetricsReceiver N' ctx' rset' config' consumer'
               (snd (createMetricsReceiver N ctx rset (ConfigPtr (Some c)) consumer g))))
       \<and> process_enableBootTimeCache
            (snd (createMetricsReceiver N' ctx' rset' config' consumer'
               (snd (createMetricsReceiver N ctx rset (ConfigPtr (Some c)) consumer g)))))
   \<and> (list_all (is_built ctx rset (scraperFactories g)) (Scrapers c)
       \<and> N (ControllerConfig c) rset consumer
            (map (built_option ctx rset (scraperFactories g)) (Scrapers c)) = (Some ctl, None)
    \<longrightarrow> start_metrics_receiver N ctx rset (ConfigPtr (Some c)) consumer g =
          Some (map (\<lambda>s. ScraperStart s True True) (ctl_scrapers ctl)))
   \<and> (list_all (is_built ctx rset (scraperFactories g)) (Scrapers c)
       \<and> N (ControllerConfig c) rset consumer
            (map (built_option ctx rset (scraperFactories g)) (Scrapers c)) = (None, Some err)
    \<longrightarrow> fst (createMetricsReceiver N ctx rset (ConfigPtr (Some c)) consumer g) =
          Returns (None, Some err)
       \<and> host_enableBootTimeCache
            (snd (createMetricsReceiver N ctx rset (ConfigPtr (Some c)) consumer g))
       \<and> process_enableBootTimeCache
            (snd (createMetricsReceiver N ctx rset (ConfigPtr (Some c)) consumer g)))
   \<and> (\<not> list_all (is_built ctx rset (scraperFactories g)) (Scrapers c)
    \<longrightarrow> snd (createMetricsReceiver N ctx rset (ConfigPtr (Some c)) consumer g) = g
       \<and> start_metrics_receiver N ctx rset (ConfigPtr (Some c)) consumer g = None)"
proof -
  let ?all = "list_all (is_built ctx rset (scraperFactories g)) (Scrapers c)"
  let ?r = "createMetricsReceiver N ctx rset (ConfigPtr (Some c)) consumer g"
  let ?opts = "map (built_option ctx rset (scraperFactories g)) (Scrapers c)"
  have p1: "?all
    \<longrightarrow> libraryCalls (snd ?r) =
          libraryCalls g @
            [HostEnableBootTimeCache True, ProcessEnableBootTimeCache True,
             NewScraperControllerReceiverCall]
       \<and> host_enableBootTimeCache (snd ?r)
       \<and> process_enableBootTimeCache (snd ?r)
       \<and> host_enableBootTimeCache
            (snd (createMetricsReceiver N' ctx' rset' config' consumer' (snd ?r)))
       \<and> process_enableBootTimeCache
            (snd (createMetricsReceiver N' ctx' rset' config' consumer' (snd ?r)))"
  proof
    assume a: ?all
    have calls: "libraryCalls (snd ?r) = libraryCalls g @
            [HostEnableBootTimeCache True, ProcessEnableBootTimeCache True,
             NewScraperControllerReceiverCall]"
      and h: "host_enableBootTimeCache (snd ?r)" and p: "process_enableBootTimeCache (snd ?r)"
      by (simp_all add: createMetricsReceiver_built [OF a])
    from calls h p
      createMetricsReceiver_host_switch_stays [OF h, of N' ctx' rset' config' consumer']
      createMetricsReceiver_process_switch_stays [OF p, of N' ctx' rset' config' consumer']
    show "libraryCalls (snd ?r) =
          libraryCalls g @
            [HostEnableBootTimeCache True, ProcessEnableBootTimeCache True,
             NewScraperControllerReceiverCall]
       \<and> host_enableBootTimeCache (snd ?r)
       \<and> process_enableBootTimeCache (snd ?r)
       \<and> host_enableBootTimeCache
            (snd (createMetricsReceiver N' ctx' rset' config' consumer' (snd ?r)))
       \<and> process_enableBootTimeCache
            (snd (createMetricsReceiver N' ctx' rset' config' consumer' (snd ?r)))"
      by simp
  qed
  have p2: "?all \<and> N (ControllerConfig c) rset consumer ?opts = (Some ctl, None)
    \<longrightarrow> start_metrics_receiver N ctx rset (ConfigPtr (Some c)) consumer g =
          Some (map (\<lambda>s. ScraperStart s True True) (ctl_scrapers ctl))"
  proof
    assume a: "?all \<and> N (ControllerConfig c) rset consumer ?opts = (Some ctl, None)"
    then have b: ?all by simp
    show "start_metrics_receiver N ctx rset (ConfigPtr (Some c)) consumer g =
          Some (map (\<lambda>s. ScraperStart s True True) (ctl_scrapers ctl))"
      using a
      by (simp add: start_metrics_receiver_def createMetricsReceiver_built [OF b]
          controller_Start_def)
  qed
  have p3: "?all \<and> N (ControllerConfig c) rset consumer ?opts = (None, Some err)
    \<longrightarrow> fst ?r = Returns (None, Some err)
       \<and> host_enableBootTimeCache (snd ?r)
       \<and> process_enableBootTimeCache (snd ?r)"
  proof
    assume a: "?all \<and> N (ControllerConfig c) rset consumer ?opts = (None, Some err)"
    then have b: ?all by simp
    show "fst ?r = Returns (None, Some err)
       \<and> host_enableBootTimeCache (snd ?r)
       \<and> process_enableBootTimeCache (snd ?r)"
      using a by (simp add: createMetricsReceiver_built [OF b])
  qed
  have p4: "\<not> ?all \<longrightarrow> snd ?r = g
       \<and> start_metrics_receiver N ctx rset (ConfigPtr (Some c)) consumer g = None"
  proof
    assume a: "\<not> ?all"
    from createMetricsReceiver_not_built [OF a, of N consumer]
    show "snd ?r = g
       \<and> start_metrics_receiver N ctx rset (ConfigPtr (Some c)) consumer g = None"
      by (auto simp: start_metrics_receiver_def)
  qed
  show ?thesis
    by (intro conjI) (fact p1, fact p2, fact p3, fact p4)
qed

theorem boot_time_cache_enabled_by_receiver_factory_witness:
  "list_all (is_built () () (scraperFactories example_cacheGlobals))
      (Scrapers (example_Config [''load'', ''cpu'']))
   \<and> libraryCalls (snd (createMetricsReceiver new_controller () ()
        (ConfigPtr (Some (example_Config [''load'', ''cpu'']))) () example_cacheGlobals))
      = [HostEnableBootTimeCache True, ProcessEnableBootTimeCache True,
         NewScraperControllerReceiverCall]
   \<and> start_metrics_receiver new_controller () ()
        (ConfigPtr (Some (example_Config [''load'', ''cpu'']))) () example_cacheGlobals
      = Some [ScraperStart (Some ''load scraper'') True True,
              ScraperStart (Some ''cpu scraper'') True True]
   \<and> fst (createMetricsReceiver example_failing_NewScraperControllerReceiver () ()
        (ConfigPtr (Some (example_Config [''load'', ''cpu'']))) () example_cacheGlobals)
      = Returns (None, Some (Err ''nil next consumer''))
   \<and> host_enableBootTimeCache
        (snd (createMetricsReceiver example_failing_NewScraperControllerReceiver () ()
          (ConfigPtr (Some (example_Config [''load'', ''cpu'']))) () example_cacheGlobals))
   \<and> \<not> list_all (is_built () () (scraperFactories example_cacheGlobals))
          (Scrapers (example_Config [''load'', ''disk'']))
   \<and> snd (createMetricsReceiver new_controller () ()
        (ConfigPtr (Some (example_Config [''load'', ''disk'']))) () example_cacheGlobals)
      = example_cacheGlobals
   \<and> start_metrics_receiver new_controller () ()
        (ConfigPtr (Some (example_Config [''load'', ''disk'']))) () example_cacheGlobals = None"
  using boot_time_cache_enabled_by_receiver_factory
      [of "()" "()" example_cacheGlobals "example_Config [''load'', ''cpu'']"
          new_controller "()" new_controller "()" "()" OtherConfig "()"
          "\<lparr>ctl_config = (), ctl_settings = (), ctl_consumer = (),
            ctl_scrapers = [Some ''load scraper'', Some ''cpu scraper'']\<rparr>"
          "Err ''nil next consumer''"]
    boot_time_cache_enabled_by_receiver_factory
      [of "()" "()" example_cacheGlobals "example_Config [''load'', ''cpu'']"
          example_failing_NewScraperControllerReceiver "()" new_controller "()" "()"
          OtherConfig "()"
          "\<lparr>ctl_config = (), ctl_settings = (), ctl_consumer = (),
            ctl_scrapers = []\<rparr>"
          "Err ''nil next consumer''"]
    boot_time_cache_enabled_by_receiver_factory
      [of "()" "()" example_cacheGlobals "example_Config [''load'', ''disk'']"
          new_controller "()" new_controller "()" "()" OtherConfig "()"
          "\<lparr>ctl_config = (), ctl_settings = (), ctl_consumer = (),
            ctl_scrapers = []\<rparr>"
          "Err ''nil next consumer''"]
  by (simp add: example_defs example_cache_defs is_built_def index_factories_def
      built_option_def start_metrics_receiver_def controller_Start_def
      createMetricsReceiver_def createAddScraperOptions_def createHostMetricsScraper_def
      host_EnableBootTimeCache_def process_EnableBootTimeCache_def)

text \<open>
  Both caches are enabled although no controller is ever built: its constructor returns
  an error and no scraper is started. The enabling is not an act of the controller.
\<close>

theorem boot_time_cache_enabled_without_controller:
  "createMetricsReceiver example_failing_NewScraperControllerReceiver () ()
        (ConfigPtr (Some (example_Config [''load'', ''cpu'']))) () example_cacheGlobals
     = (Returns (None, Some (Err ''nil next consumer'')),
        example_cacheGlobals
          \<lparr>host_enableBootTimeCache := True, process_enableBootTimeCache := True,
           libraryCalls := [HostEnableBootTimeCache True, ProcessEnableBootTimeCache True,
                            NewScraperControllerReceiverCall]\<rparr>)
   \<and> start_metrics_receiver example_failing_NewScraperControllerReceiver () ()
        (ConfigPtr (Some (example_Config [''load'', ''cpu'']))) () example_cacheGlobals = None"
  by (simp add: example_defs example_cache_defs start_metrics_receiver_def
      createMetricsReceiver_def createAddScraperOptions_def createHostMetricsScraper_def
      index_factories_def host_EnableBootTimeCache_def process_EnableBootTimeCache_def)

section \<open>Construction of the logs receiver\<close>

text \<open>
  Claim C10, as amended. For every context, settings and logs consumer, and every
  configuration whose dynamic type is \<open>*Config\<close> (the nil pointer included),
  \<open>createLogsReceiver\<close> returns a non-nil receiver that holds that configuration, that
  consumer and the settings, together with the nil error. The scraper keys of the
  configuration are not looked at.
\<close>

theorem createLogsReceiver_wraps_Config:
  "createLogsReceiver ctx rset (ConfigPtr p) consumer =
     Returns (Some \<lparr>cfg = p, nextLogs = consumer, settings = rset\<rparr>, None)"
  by (simp add: createLogsReceiver_def)

text \<open>
  For a configuration of any other dynamic type the type assertion panics, so the claim
  does not hold for every configuration.
\<close>

theorem createLogsReceiver_panics_on_other_config:
  "createLogsReceiver () () (OtherConfig :: (unit, unit) component_Config) () = Panics"
  by (simp add: createLogsReceiver_def)

section \<open>Handle counts after a refresh\<close>

lemma os_changes_handleCounts: "handleCounts (os_changes ts w) = handleCounts w"
  by (induction ts arbitrary: w) simp_all

text \<open>
  Claim C4. After a \<open>Refresh\<close> that read the table \<open>table\<close>, and whatever changes the
  process table of the operating system goes through before the next refresh,
  \<open>GetProcessHandleCount\<close> returns a not-found error for a process id that is not in
  \<open>table\<close>, and the count that \<open>table\<close> records for a process id that is in it.
\<close>

theorem GetProcessHandleCount_after_Refresh:
  "os_handleCounts w = Inr table
   \<longrightarrow> fst (Refresh w) = None
       \<and> GetProcessHandleCount (os_changes ts (snd (Refresh w))) pid =
           (case table pid of
              None \<Rightarrow> (0, Some (ProcessNotFound pid))
            | Some handleCount \<Rightarrow> (handleCount, None))"
  by (simp add: Refresh_def GetProcessHandleCount_def os_changes_handleCounts)

theorem GetProcessHandleCount_after_Refresh_witness:
  "os_handleCounts example_world = Inr (Map.empty(4 \<mapsto> 17))
   \<and> fst (Refresh example_world) = None
   \<and> GetProcessHandleCount
        (os_changes [Inr (Map.empty(5 \<mapsto> 3)), Inl (QueryFailed ''denied'')]
           (snd (Refresh example_world))) 4 = (17, None)
   \<and> GetProcessHandleCount
        (os_changes [Inr (Map.empty(5 \<mapsto> 3)), Inl (QueryFailed ''denied'')]
           (snd (Refresh example_world))) 5 = (0, Some (ProcessNotFound 5))"
  using GetProcessHandleCount_after_Refresh
      [of example_world "Map.empty(4 \<mapsto> 17)"
          "[Inr (Map.empty(5 \<mapsto> 3)), Inl (QueryFailed ''denied'')]" 4]
    GetProcessHandleCount_after_Refresh
      [of example_world "Map.empty(4 \<mapsto> 17)"
          "[Inr (Map.empty(5 \<mapsto> 3)), Inl (QueryFailed ''denied'')]" 5]
  by (simp add: example_world_def)

section \<open>A round with one fatal failure\<close>

lemma failed_fatally_Fatal: "failed_fatally (Fatal e)"
  by (simp add: failed_fatally_def)

lemma filter_failed_none:
  "list_all (\<lambda>t. \<not> failed_fatally (scrape t w)) ts \<Longrightarrow>
   filter (\<lambda>kr. failed_fatally (snd kr)) (map (\<lambda>s. (scraperKey s, scrape s w)) ts) = []"
  by (induction ts) simp_all

lemma list_ex_map_scrape:
  "list_ex (\<lambda>kr. \<not> failed_fatally (snd kr)) (map (\<lambda>s. (scraperKey s, scrape s w)) ts)
     = list_ex (\<lambda>u. \<not> failed_fatally (scrape u w)) ts"
  by (induction ts) simp_all

text \<open>
  Claim C2. In a round in which one active scraper fails fatally and the others, of which
  there is at least one, do not, the controller forwards the merged batch of the others'
  data, in their order, with a PartialError that names exactly the failed scraper. The
  failure does not abort the contributions of the siblings, whether they are scraped
  before or after the failed one.
\<close>

theorem controller_round_one_fatal:
  "scrape s w = Fatal e
   \<and> list_all (\<lambda>t. \<not> failed_fatally (scrape t w)) (pre @ post)
   \<and> pre @ post \<noteq> []
   \<longrightarrow> controller_round now w (pre @ s # post) =
        \<lparr>forwarded =
           Some \<lparr>timestamp = now,
                 dataPoints = concat (map (\<lambda>t. contribution (scrape t w)) (pre @ post))\<rparr>,
         roundError = Some \<lparr>failedScrapers = [scraperKey s], forwardPartialData = True\<rparr>\<rparr>"
proof
  assume a: "scrape s w = Fatal e
   \<and> list_all (\<lambda>t. \<not> failed_fatally (scrape t w)) (pre @ post)
   \<and> pre @ post \<noteq> []"
  then have pre: "list_all (\<lambda>t. \<not> failed_fatally (scrape t w)) pre"
    and post: "list_all (\<lambda>t. \<not> failed_fatally (scrape t w)) post" by simp_all
  from a obtain t where t: "t \<in> set (pre @ post)" by (cases "pre @ post") auto
  with a have "\<not> failed_fatally (scrape t w)" by (auto simp: list_all_iff)
  with t have "list_ex (\<lambda>u. \<not> failed_fatally (scrape u w)) (pre @ s # post)"
    by (auto simp: list_ex_iff)
  then have ex: "list_ex (\<lambda>kr. \<not> failed_fatally (snd kr))
      (map (\<lambda>s. (scraperKey s, scrape s w)) (pre @ s # post))"
    by (simp only: list_ex_map_scrape)
  have fs: "map fst (filter (\<lambda>kr. failed_fatally (snd kr))
      (map (\<lambda>s. (scraperKey s, scrape s w)) (pre @ s # post))) = [scraperKey s]"
    using a by (simp add: filter_failed_none [OF pre] filter_failed_none [OF post]
        failed_fatally_Fatal)
  have c: "concat (map (\<lambda>kr. contribution (snd kr))
      (map (\<lambda>s. (scraperKey s, scrape s w)) (pre @ s # post)))
    = concat (map (\<lambda>t. contribution (scrape t w)) (pre @ post))"
    using a by (simp add: contribution_def comp_def)
  show "controller_round now w (pre @ s # post) =
        \<lparr>forwarded =
           Some \<lparr>timestamp = now,
                 dataPoints = concat (map (\<lambda>t. contribution (scrape t w)) (pre @ post))\<rparr>,
         roundError = Some \<lparr>failedScrapers = [scraperKey s], forwardPartialData = True\<rparr>\<rparr>"
    unfolding controller_round_def Let_def using ex fs c by simp
qed

theorem controller_round_one_fatal_witness:
  "scrape example_diskScraper () = Fatal (Err ''unreadable'')
   \<and> list_all (\<lambda>t. \<not> failed_fatally (scrape t ())) ([example_loadScraper] @ [example_cpuScraper])
   \<and> [example_loadScraper] @ [example_cpuScraper] \<noteq> []
   \<and> controller_round 7 () [example_loadScraper, example_diskScraper, example_cpuScraper] =
        \<lparr>forwarded = Some \<lparr>timestamp = 7, dataPoints = [''load average'', ''cpu time'']\<rparr>,
         roundError = Some \<lparr>failedScrapers = [''disk''], forwardPartialData = True\<rparr>\<rparr>"
  using controller_round_one_fatal
      [of example_diskScraper "()" "Err ''unreadable''" "[example_loadScraper]"
          "[example_cpuScraper]" 7]
  by (simp add: example_loadScraper_def example_diskScraper_def example_cpuScraper_def
      failed_fatally_def contribution_def)

end
